theory Spec2Isabelle
  imports Main
begin

section \<open>Values and exceptions\<close>

text \<open>
  The program handles values decoded from JSON by the injected \<open>json_parser\<close>
  (\<open>json.loads\<close> by default). They are dynamically typed, so they are modelled by one
  datatype. A dict is an association list read with \<open>map_of\<close>; JSON numbers are restricted
  to integers (no float reaches any operation modelled here).
\<close>

datatype json =
    JNull
  | JBool bool
  | JInt int
  | JStr string
  | JList "json list"
  | JObj "(string \<times> json) list"

text \<open>
  Exceptions are values. The first three are the classes declared by \<open>StepikDispatcher\<close>;
  \<open>ResourceAcquisitionFailure\<close> carries the two values interpolated into its message, the
  resource type and the status code, \<open>AuthenticationFailure\<close> the status code. The others
  are the built-in exceptions raised by subscripting, iterating and adding, and whatever
  the injected parser raises on a malformed body.
\<close>

datatype error =
    WrongCredentials
  | AuthenticationFailure int
  | ResourceAcquisitionFailure string int
  | KeyError
  | IndexError
  | TypeError
  | JSONDecodeError

type_synonym 'a result = "error + 'a"

text \<open>A call that may also fail to return: \<open>None\<close> is "the recursion never ends".\<close>

type_synonym 'a outcome = "(error + 'a) option"

definition bindE :: "'a result \<Rightarrow> ('a \<Rightarrow> 'b result) \<Rightarrow> 'b result" where
  "bindE m f = (case m of Inl e \<Rightarrow> Inl e | Inr x \<Rightarrow> f x)"

definition bindR :: "'a outcome \<Rightarrow> ('a \<Rightarrow> 'b outcome) \<Rightarrow> 'b outcome" where
  "bindR m f = Option.bind m (\<lambda>r. case r of Inl e \<Rightarrow> Some (Inl e) | Inr x \<Rightarrow> f x)"

subsection \<open>The Python operations applied to decoded values\<close>

text \<open>\<open>v[key]\<close> with a string key.\<close>

fun getitem_str :: "json \<Rightarrow> string \<Rightarrow> json result" where
  "getitem_str (JObj kvs) k = (case map_of kvs k of None \<Rightarrow> Inl KeyError | Some v \<Rightarrow> Inr v)"
| "getitem_str _ k = Inl TypeError"

text \<open>\<open>xs[i]\<close> on a Python list: a negative index counts from the end.\<close>

definition list_index :: "'a list \<Rightarrow> int \<Rightarrow> 'a result" where
  "list_index xs i =
     (if 0 \<le> i \<and> i < int (length xs) then Inr (xs ! nat i)
      else if i < 0 \<and> - int (length xs) \<le> i then Inr (xs ! nat (int (length xs) + i))
      else Inl IndexError)"

text \<open>\<open>v[i]\<close> with an integer index. The keys of a decoded dict are strings, so an
  integer is never among them.\<close>

fun getitem_int :: "json \<Rightarrow> int \<Rightarrow> json result" where
  "getitem_int (JList xs) i = list_index xs i"
| "getitem_int (JStr s) i = bindE (list_index s i) (\<lambda>c. Inr (JStr [c]))"
| "getitem_int (JObj kvs) i = Inl KeyError"
| "getitem_int _ i = Inl TypeError"

text \<open>Truth value of a value used as a condition.\<close>

fun truthy :: "json \<Rightarrow> bool" where
  "truthy JNull = False"
| "truthy (JBool b) = b"
| "truthy (JInt i) = (i \<noteq> 0)"
| "truthy (JStr s) = (s \<noteq> [])"
| "truthy (JList xs) = (xs \<noteq> [])"
| "truthy (JObj kvs) = (kvs \<noteq> [])"

text \<open>\<open>len(v)\<close>.\<close>

fun py_len :: "json \<Rightarrow> nat result" where
  "py_len (JList xs) = Inr (length xs)"
| "py_len (JStr s) = Inr (length s)"
| "py_len (JObj kvs) = Inr (length (remdups (map fst kvs)))"
| "py_len _ = Inl TypeError"

text \<open>The elements visited by \<open>for x in v\<close>: a string yields its characters, a dict its keys.\<close>

fun py_iter :: "json \<Rightarrow> json list result" where
  "py_iter (JList xs) = Inr xs"
| "py_iter (JStr s) = Inr (map (\<lambda>c. JStr [c]) s)"
| "py_iter (JObj kvs) = Inr (map JStr (remdups (map fst kvs)))"
| "py_iter _ = Inl TypeError"

text \<open>\<open>v[:k]\<close> and \<open>v[k:]\<close> for \<open>k \<ge> 0\<close>. Lists and strings are sliced; a dict is
  not (the exception is \<open>TypeError\<close> up to Python 3.11), and the other values have no
  subscript.\<close>

fun slice_to :: "json \<Rightarrow> nat \<Rightarrow> json result" where
  "slice_to (JList xs) k = Inr (JList (take k xs))"
| "slice_to (JStr s) k = Inr (JStr (take k s))"
| "slice_to _ k = Inl TypeError"

fun slice_from :: "json \<Rightarrow> nat \<Rightarrow> json result" where
  "slice_from (JList xs) k = Inr (JList (drop k xs))"
| "slice_from (JStr s) k = Inr (JStr (drop k s))"
| "slice_from _ k = Inl TypeError"

text \<open>\<open>a + b\<close>: lists and strings concatenate, integers (and booleans, which are
  integers) add, every other pair of operands raises.\<close>

fun as_number :: "json \<Rightarrow> int option" where
  "as_number (JInt i) = Some i"
| "as_number (JBool b) = Some (if b then 1 else 0)"
| "as_number _ = None"

fun py_add :: "json \<Rightarrow> json \<Rightarrow> json result" where
  "py_add (JList xs) (JList ys) = Inr (JList (xs @ ys))"
| "py_add (JStr s) (JStr t) = Inr (JStr (s @ t))"
| "py_add a b =
     (case (as_number a, as_number b) of
        (Some i, Some j) \<Rightarrow> Inr (JInt (i + j))
      | _ \<Rightarrow> Inl TypeError)"

text \<open>\<open>a += b\<close>: as \<open>a + b\<close>, except that a list is extended by any iterable.\<close>

fun py_iadd :: "json \<Rightarrow> json \<Rightarrow> json result" where
  "py_iadd (JList xs) b = bindE (py_iter b) (\<lambda>ys. Inr (JList (xs @ ys)))"
| "py_iadd a b = py_add a b"

section \<open>stepik\_dispatcher.py\<close>

text \<open>
  The network is the injected \<open>net_manager\<close>: \<open>post\<close> answers the token request for a
  client id and secret, \<open>get\<close> answers a GET for a URL, the \<open>Authorization\<close> header and the
  query parameters (\<open>ids[]\<close> and \<open>page\<close>, or none). Only the two fields of a response that
  the program reads are kept. The server is a function of the request, and exceptions of
  the transport itself are outside the model.
\<close>

record response =
  status_code :: int
  response_text :: string

record net_manager =
  post :: "string \<Rightarrow> string \<Rightarrow> string \<Rightarrow> response"
  get :: "string \<Rightarrow> string \<Rightarrow> (json \<times> int) option \<Rightarrow> response"

record StepikDispatcher =
  json_parser :: "string \<Rightarrow> json result"
  net_manager :: net_manager
  token :: json

text \<open>\<open>StepikDispatcher.__init__\<close>\<close>

definition init :: "string \<Rightarrow> string \<Rightarrow> (string \<Rightarrow> json result) \<Rightarrow> net_manager
    \<Rightarrow> StepikDispatcher result" where
  "init client_id client_secret parser net =
     (let resp = post net ''https://stepik.org/oauth2/token/'' client_id client_secret
      in if status_code resp = 200 then
           bindE (parser (response_text resp)) (\<lambda>body.
           bindE (getitem_str body ''access_token'') (\<lambda>tok.
           Inr \<lparr>json_parser = parser, net_manager = net, token = tok\<rparr>))
         else if status_code resp = 401 then Inl WrongCredentials
         else Inl (AuthenticationFailure (status_code resp)))"

text \<open>\<open>authorized_get\<close>: \<open>'Bearer ' + self.token\<close> raises unless the token is a string.\<close>

definition authorized_get :: "StepikDispatcher \<Rightarrow> string \<Rightarrow> (json \<times> int) option
    \<Rightarrow> response result" where
  "authorized_get self url params =
     (case token self of
        JStr t \<Rightarrow> Inr (get (net_manager self) url (''Bearer '' @ t) params)
      | _ \<Rightarrow> Inl TypeError)"

definition get_and_parse_authorized :: "StepikDispatcher \<Rightarrow> string \<Rightarrow> json result" where
  "get_and_parse_authorized self url =
     bindE (authorized_get self url None) (\<lambda>resp. json_parser self (response_text resp))"

text \<open>\<open>get_resources_list\<close>. Both recursions are unbounded in the source, so the
  function is partial: \<open>None\<close> is a recursion that never reaches a \<open>return\<close> or a
  \<open>raise\<close> of the program (the interpreter's recursion limit, which would end it with
  \<open>RecursionError\<close>, is not part of the program). A half of a split is fetched from
  page 1, the default of the \<open>page\<close> parameter.\<close>

partial_function (option) get_resources_list ::
    "StepikDispatcher \<Rightarrow> string \<Rightarrow> json \<Rightarrow> int \<Rightarrow> json outcome" where
  "get_resources_list self api_resource ids page =
     (case authorized_get self (''http://stepik.org/api/'' @ api_resource) (Some (ids, page)) of
        Inl e \<Rightarrow> Some (Inl e)
      | Inr response \<Rightarrow>
          if status_code response = 200 then
            (case json_parser self (response_text response) of
               Inl e \<Rightarrow> Some (Inl e)
             | Inr paginated_list \<Rightarrow>
                (case getitem_str paginated_list api_resource of
                   Inl e \<Rightarrow> Some (Inl e)
                 | Inr resources_list \<Rightarrow>
                    (case bindE (getitem_str paginated_list ''meta'')
                                (\<lambda>meta. getitem_str meta ''has_next'') of
                       Inl e \<Rightarrow> Some (Inl e)
                     | Inr has_next \<Rightarrow>
                         if truthy has_next then
                           Option.bind (get_resources_list self api_resource ids (page + 1))
                             (\<lambda>r. case r of
                                    Inl e \<Rightarrow> Some (Inl e)
                                  | Inr next_pages \<Rightarrow> Some (py_iadd resources_list next_pages))
                         else Some (Inr resources_list))))
          else if status_code response = 431 then
            (case bindE (py_len ids) (\<lambda>n. slice_to ids (n div 2)) of
               Inl e \<Rightarrow> Some (Inl e)
             | Inr left_ids \<Rightarrow>
                 Option.bind (get_resources_list self api_resource left_ids 1)
                   (\<lambda>r. case r of
                          Inl e \<Rightarrow> Some (Inl e)
                        | Inr left \<Rightarrow>
                           (case bindE (py_len ids) (\<lambda>n. slice_from ids (n div 2)) of
                              Inl e \<Rightarrow> Some (Inl e)
                            | Inr right_ids \<Rightarrow>
                                Option.bind (get_resources_list self api_resource right_ids 1)
                                  (\<lambda>r. case r of
                                         Inl e \<Rightarrow> Some (Inl e)
                                       | Inr right \<Rightarrow> Some (py_add left right)))))
          else Some (Inl (ResourceAcquisitionFailure api_resource (status_code response))))"

declare get_resources_list.simps [code]

text \<open>List comprehensions evaluate left to right and stop at the first exception.\<close>

fun mapE :: "('a \<Rightarrow> 'b result) \<Rightarrow> 'a list \<Rightarrow> 'b list result" where
  "mapE f [] = Inr []"
| "mapE f (x # xs) = bindE (f x) (\<lambda>y. bindE (mapE f xs) (\<lambda>ys. Inr (y # ys)))"

text \<open>\<open>str(n)\<close> for an integer.\<close>

fun str_nat :: "nat \<Rightarrow> string" where
  "str_nat n =
     (if n < 10 then [char_of (48 + n)] else str_nat (n div 10) @ [char_of (48 + n mod 10)])"

definition str_int :: "int \<Rightarrow> string" where
  "str_int i = (if i < 0 then CHR ''-'' # str_nat (nat (- i)) else str_nat (nat i))"

definition get_list_of_week_ids :: "StepikDispatcher \<Rightarrow> int \<Rightarrow> json result" where
  "get_list_of_week_ids self course_id =
     bindE (get_and_parse_authorized self (''http://stepik.org/api/courses/'' @ str_int course_id))
       (\<lambda>parsed.
     bindE (getitem_str parsed ''courses'') (\<lambda>courses.
     bindE (getitem_int courses 0) (\<lambda>course.
     getitem_str course ''sections'')))"

definition get_lists_of_units :: "StepikDispatcher \<Rightarrow> json \<Rightarrow> json list outcome" where
  "get_lists_of_units self week_ids =
     bindR (get_resources_list self ''sections'' week_ids 1) (\<lambda>weeks_data.
       Some (bindE (py_iter weeks_data) (mapE (\<lambda>w. getitem_str w ''units''))))"

definition get_list_of_lessons_ids :: "StepikDispatcher \<Rightarrow> json \<Rightarrow> json list outcome" where
  "get_list_of_lessons_ids self unit_ids =
     bindR (get_resources_list self ''units'' unit_ids 1) (\<lambda>units_data.
       Some (bindE (py_iter units_data) (mapE (\<lambda>u. getitem_str u ''lesson''))))"

definition get_lists_of_step_ids :: "StepikDispatcher \<Rightarrow> json list \<Rightarrow> json list outcome" where
  "get_lists_of_step_ids self lesson_ids =
     bindR (get_resources_list self ''lessons'' (JList lesson_ids) 1) (\<lambda>lessons_data.
       Some (bindE (py_iter lessons_data) (mapE (\<lambda>lesson. getitem_str lesson ''steps''))))"

definition get_list_of_step_data :: "StepikDispatcher \<Rightarrow> json list \<Rightarrow> json outcome" where
  "get_list_of_step_data self step_ids = get_resources_list self ''steps'' (JList step_ids) 1"

section \<open>downloader.py\<close>

record StepikVideoUrl =
  available_qualities :: json

subsection \<open>\<open>get_course_videos_urls_by_section\<close>\<close>

text \<open>The flattening comprehension over the lists of step ids.\<close>

definition flatten_step_ids :: "json list \<Rightarrow> json list result" where
  "flatten_step_ids all_step_ids = bindE (mapE py_iter all_step_ids) (\<lambda>ls. Inr (concat ls))"

definition step_has_video :: "json \<Rightarrow> json result" where
  "step_has_video step_data = bindE (getitem_str step_data ''block'') (\<lambda>b. getitem_str b ''video'')"

fun only_video_blocks :: "json list \<Rightarrow> json list result" where
  "only_video_blocks [] = Inr []"
| "only_video_blocks (step_info # rest) =
     bindE (step_has_video step_info) (\<lambda>v.
       if truthy v then
         bindE (getitem_str step_info ''block'') (\<lambda>block.
         bindE (only_video_blocks rest) (\<lambda>blocks. Inr (block # blocks)))
       else only_video_blocks rest)"

definition video_of_block :: "json \<Rightarrow> StepikVideoUrl result" where
  "video_of_block block =
     bindE (getitem_str block ''video'') (\<lambda>video.
     bindE (getitem_str video ''urls'') (\<lambda>urls. Inr \<lparr>available_qualities = urls\<rparr>))"

text \<open>Source lines 40 to 44: from the fetched step data to the week's videos.\<close>

definition week_videos :: "json \<Rightarrow> StepikVideoUrl list result" where
  "week_videos all_steps_data =
     bindE (py_iter all_steps_data) (\<lambda>steps.
     bindE (only_video_blocks steps) (mapE video_of_block))"

text \<open>The body of the loop for a week that is not skipped (source lines 34 to 44).\<close>

definition week_body :: "StepikDispatcher \<Rightarrow> json list \<Rightarrow> int \<Rightarrow> StepikVideoUrl list outcome"
  where
  "week_body stepik_dispatcher all_unit_ids week_num =
     bindR (Some (list_index all_unit_ids (week_num - 1))) (\<lambda>unit_ids.
     bindR (get_list_of_lessons_ids stepik_dispatcher unit_ids) (\<lambda>all_lesson_ids.
     bindR (get_lists_of_step_ids stepik_dispatcher all_lesson_ids) (\<lambda>all_step_ids.
     bindR (Some (flatten_step_ids all_step_ids)) (\<lambda>flat_step_ids.
     bindR (get_list_of_step_data stepik_dispatcher flat_step_ids) (\<lambda>all_steps_data.
     Some (week_videos all_steps_data))))))"

text \<open>The \<open>for week_num in range(...)\<close> loop, with \<open>videos_by_section\<close> as accumulator.\<close>

fun weeks_loop :: "StepikDispatcher \<Rightarrow> json list \<Rightarrow> int option \<Rightarrow> int list
    \<Rightarrow> StepikVideoUrl list list \<Rightarrow> StepikVideoUrl list list outcome" where
  "weeks_loop stepik_dispatcher all_unit_ids only_from_week_number [] videos_by_section =
     Some (Inr videos_by_section)"
| "weeks_loop stepik_dispatcher all_unit_ids only_from_week_number (week_num # rest)
       videos_by_section =
     (if only_from_week_number \<noteq> None \<and> Some week_num \<noteq> only_from_week_number then
        weeks_loop stepik_dispatcher all_unit_ids only_from_week_number rest videos_by_section
      else
        bindR (week_body stepik_dispatcher all_unit_ids week_num) (\<lambda>videos.
          weeks_loop stepik_dispatcher all_unit_ids only_from_week_number rest
            (videos_by_section @ [videos])))"

definition get_course_videos_urls_by_section ::
    "int \<Rightarrow> StepikDispatcher \<Rightarrow> int option \<Rightarrow> StepikVideoUrl list list outcome" where
  "get_course_videos_urls_by_section course_id stepik_dispatcher only_from_week_number =
     bindR (Some (get_list_of_week_ids stepik_dispatcher course_id)) (\<lambda>week_ids.
     bindR (get_lists_of_units stepik_dispatcher week_ids) (\<lambda>all_unit_ids.
     bindR (Some (py_len week_ids)) (\<lambda>n.
     weeks_loop stepik_dispatcher all_unit_ids only_from_week_number [1..int n] [])))"

subsection \<open>The quality selection of \<open>main\<close> (source lines 122 to 141)\<close>

text \<open>The pattern \<open>{'quality': args.quality, 'url': url}\<close>: the subject is a dict with
  both keys whose \<open>quality\<close> equals the requested one; the result is the bound \<open>url\<close>.\<close>

fun match_link :: "string \<Rightarrow> json \<Rightarrow> json option" where
  "match_link quality (JObj kvs) =
     (case (map_of kvs ''quality'', map_of kvs ''url'') of
        (Some q, Some url) \<Rightarrow> if q = JStr quality then Some url else None
      | _ \<Rightarrow> None)"
| "match_link quality _ = None"

text \<open>The inner \<open>for link in ...\<close> loop with its \<open>break\<close>; \<open>None\<close> is the initial
  \<open>video_link = None\<close>.\<close>

fun find_link :: "string \<Rightarrow> json list \<Rightarrow> json option" where
  "find_link quality [] = None"
| "find_link quality (link # rest) =
     (case match_link quality link of Some url \<Rightarrow> Some url | None \<Rightarrow> find_link quality rest)"

record selected =
  url :: json
  msg :: "string option"

text \<open>Source lines 135 to 138: the warning and the first element's URL.\<close>

definition first_available :: "string \<Rightarrow> StepikVideoUrl \<Rightarrow> selected result" where
  "first_available quality video =
     bindE (getitem_int (available_qualities video) 0) (\<lambda>first.
     bindE (getitem_str first ''url'') (\<lambda>u.
     Inr \<lparr>url = u,
          msg = Some (''The requested quality = '' @ quality @ '' is not available!'')\<rparr>))"

text \<open>A matched \<open>url\<close> that is \<open>null\<close> leaves \<open>video_link is None\<close> true.\<close>

definition select_quality :: "string \<Rightarrow> StepikVideoUrl \<Rightarrow> selected result" where
  "select_quality quality video =
     bindE (py_iter (available_qualities video)) (\<lambda>links.
       case find_link quality links of
         None \<Rightarrow> first_available quality video
       | Some video_link \<Rightarrow>
           if video_link = JNull then first_available quality video
           else Inr \<lparr>url = video_link, msg = None\<rparr>)"

text \<open>The loop over the videos of one week that builds \<open>url_list_with_q\<close>.\<close>

definition url_list_with_q :: "string \<Rightarrow> StepikVideoUrl list \<Rightarrow> selected list result" where
  "url_list_with_q quality video_urls = mapE (select_quality quality) video_urls"

section \<open>Observations of the server used in the statements\<close>

text \<open>The status code with which the server answers the request that
  \<open>get_resources_list\<close> issues for a resource type, an id list and a page; \<open>None\<close> when the
  request cannot be built.\<close>

definition status_of :: "StepikDispatcher \<Rightarrow> string \<Rightarrow> json \<Rightarrow> int \<Rightarrow> int option" where
  "status_of self api_resource ids page =
     (case authorized_get self (''http://stepik.org/api/'' @ api_resource) (Some (ids, page)) of
        Inl e \<Rightarrow> None
      | Inr response \<Rightarrow> Some (status_code response))"

text \<open>A page answered with status 200 and a well-formed body: the value under the
  resource type and the truth value of the has-next flag.\<close>

definition page_items :: "StepikDispatcher \<Rightarrow> string \<Rightarrow> json \<Rightarrow> int \<Rightarrow> (json \<times> bool) option"
  where
  "page_items self api_resource ids page =
     (case authorized_get self (''http://stepik.org/api/'' @ api_resource) (Some (ids, page)) of
        Inl e \<Rightarrow> None
      | Inr response \<Rightarrow>
          if status_code response = 200 then
            (case json_parser self (response_text response) of
               Inl e \<Rightarrow> None
             | Inr paginated_list \<Rightarrow>
                (case (getitem_str paginated_list api_resource,
                       bindE (getitem_str paginated_list ''meta'')
                             (\<lambda>meta. getitem_str meta ''has_next'')) of
                   (Inr resources_list, Inr has_next) \<Rightarrow> Some (resources_list, truthy has_next)
                 | _ \<Rightarrow> None))
          else None)"

text \<open>The sub-batches at which the splitting of an id list stops, from left to right:
  the leaves of the tree of splits, whatever its shape. The first argument bounds the
  depth explored.\<close>

fun atomic_batches :: "nat \<Rightarrow> StepikDispatcher \<Rightarrow> string \<Rightarrow> json list \<Rightarrow> json list list option"
  where
  "atomic_batches 0 self api_resource ids = None"
| "atomic_batches (Suc depth) self api_resource ids =
     (if status_of self api_resource (JList ids) 1 = Some 431 then
        (case (atomic_batches depth self api_resource (take (length ids div 2) ids),
               atomic_batches depth self api_resource (drop (length ids div 2) ids)) of
           (Some ls, Some rs) \<Rightarrow> Some (ls @ rs)
         | _ \<Rightarrow> None)
      else Some [ids])"

text \<open>The decoded form of an ordered list of (quality label, URL) pairs, as the video
  block of a step carries it under \<open>urls\<close>.\<close>

definition quality_records :: "(string \<times> string) list \<Rightarrow> json" where
  "quality_records pairs =
     JList (map (\<lambda>(q, u). JObj [(''quality'', JStr q), (''url'', JStr u)]) pairs)"

section \<open>Test doubles\<close>

text \<open>
  Injected parsers and network managers, in the manner of the constructor's "dependency
  injections for testing purposes". They are used to run the functions above on concrete
  servers.
\<close>

text \<open>A toy wire format for one page of \<open>steps\<close>: the body is the single item of the page,
  and a body ending in \<open>+\<close> announces a further page.\<close>

definition wire_parser :: "string \<Rightarrow> json result" where
  "wire_parser s =
     (if s = [] then Inl JSONDecodeError
      else Inr (JObj [(''steps'', JList [JStr s]),
                      (''meta'', JObj [(''has_next'', JBool (last s = CHR ''+''))])]))"

definition make_dispatcher :: "(string \<Rightarrow> json result)
    \<Rightarrow> (string \<Rightarrow> string \<Rightarrow> (json \<times> int) option \<Rightarrow> response) \<Rightarrow> StepikDispatcher" where
  "make_dispatcher parser getter =
     \<lparr>json_parser = parser,
      net_manager = \<lparr>post = (\<lambda>u i s. \<lparr>status_code = 200, response_text = []\<rparr>), get = getter\<rparr>,
      token = JStr ''secret''\<rparr>"

text \<open>A server that refuses every batch of two or more ids with 431, serves a batch of
  one integer id in two pages, and answers 500 to anything else.\<close>

definition split_get :: "string \<Rightarrow> string \<Rightarrow> (json \<times> int) option \<Rightarrow> response" where
  "split_get u h params =
     (case params of
        Some (JList ids, p) \<Rightarrow>
          if 2 \<le> length ids then \<lparr>status_code = 431, response_text = []\<rparr>
          else (case ids of
                  [JInt i] \<Rightarrow>
                    \<lparr>status_code = 200,
                     response_text = str_int i @ (if p \<le> 1 then ''+'' else ''.'')\<rparr>
                | _ \<Rightarrow> \<lparr>status_code = 500, response_text = []\<rparr>)
      | _ \<Rightarrow> \<lparr>status_code = 500, response_text = []\<rparr>)"

definition split_server :: StepikDispatcher where
  "split_server = make_dispatcher wire_parser split_get"

definition split_result :: "json list \<Rightarrow> json list" where
  "split_result batch =
     (case batch of [JInt i] \<Rightarrow> [JStr (str_int i @ ''+''), JStr (str_int i @ ''.'')] | _ \<Rightarrow> [])"

text \<open>A server with three pages for every id list.\<close>

definition paged_get :: "string \<Rightarrow> string \<Rightarrow> (json \<times> int) option \<Rightarrow> response" where
  "paged_get u h params =
     (case params of
        Some (ids, p) \<Rightarrow>
          \<lparr>status_code = 200,
           response_text = (if p = 1 then ''a+'' else if p = 2 then ''b+'' else ''c.'')\<rparr>
      | None \<Rightarrow> \<lparr>status_code = 500, response_text = []\<rparr>)"

definition paged_server :: StepikDispatcher where
  "paged_server = make_dispatcher wire_parser paged_get"

definition paged_items :: "nat \<Rightarrow> json list" where
  "paged_items i = (if i = 0 then [JStr ''a+''] else if i = 1 then [JStr ''b+''] else [JStr ''c.''])"



text \<open>A token endpoint that answers with a given status and the body \<open>abc123\<close>, and a
  parser that reads a body as the access token.\<close>

definition token_parser :: "string \<Rightarrow> json result" where
  "token_parser s = Inr (JObj [(''access_token'', JStr s)])"

definition auth_net :: "int \<Rightarrow> net_manager" where
  "auth_net status =
     \<lparr>post = (\<lambda>u i s. \<lparr>status_code = status, response_text = ''abc123''\<rparr>),
      get = (\<lambda>u h params. \<lparr>status_code = 404, response_text = []\<rparr>)\<rparr>"

text \<open>A course of two weeks. Course 5 has the sections 10 and 20; section 10 has the unit
  100, with lesson 1000 and the steps 1 (a video) and 2 (a text); section 20 has the unit
  200, with lesson 2000 and the step 3 (a text). The server answers 500 to the requests
  for the id list \<open>bad_ids\<close>.\<close>

definition sample_urls :: json where
  "sample_urls =
     JList [JObj [(''quality'', JStr ''360''), (''url'', JStr ''A'')],
            JObj [(''quality'', JStr ''720''), (''url'', JStr ''B'')]]"

definition video_step :: json where
  "video_step =
     JObj [(''block'', JObj [(''name'', JStr ''video''),
                             (''video'', JObj [(''urls'', sample_urls)])])]"

definition text_step :: json where
  "text_step = JObj [(''block'', JObj [(''name'', JStr ''text''), (''video'', JNull)])]"

definition last_page :: "string \<Rightarrow> json list \<Rightarrow> json" where
  "last_page key items =
     JObj [(key, JList items), (''meta'', JObj [(''has_next'', JBool False)])]"

definition course_parser :: "string \<Rightarrow> json result" where
  "course_parser s =
     (if s = ''course'' then
        Inr (JObj [(''courses'', JList [JObj [(''sections'', JList [JInt 10, JInt 20])]])])
      else if s = ''sections'' then
        Inr (last_page ''sections''
               [JObj [(''units'', JList [JInt 100])], JObj [(''units'', JList [JInt 200])]])
      else if s = ''unit100'' then Inr (last_page ''units'' [JObj [(''lesson'', JInt 1000)]])
      else if s = ''unit200'' then Inr (last_page ''units'' [JObj [(''lesson'', JInt 2000)]])
      else if s = ''lesson1000'' then
        Inr (last_page ''lessons'' [JObj [(''steps'', JList [JInt 1, JInt 2])]])
      else if s = ''lesson2000'' then
        Inr (last_page ''lessons'' [JObj [(''steps'', JList [JInt 3])]])
      else if s = ''steps12'' then Inr (last_page ''steps'' [video_step, text_step])
      else if s = ''steps3'' then Inr (last_page ''steps'' [text_step])
      else Inl JSONDecodeError)"

definition course_get :: "json \<Rightarrow> string \<Rightarrow> string \<Rightarrow> (json \<times> int) option \<Rightarrow> response"
  where
  "course_get bad_ids u h params =
     (case params of
        None \<Rightarrow>
          if u = ''http://stepik.org/api/courses/5''
          then \<lparr>status_code = 200, response_text = ''course''\<rparr>
          else \<lparr>status_code = 404, response_text = []\<rparr>
      | Some (ids, p) \<Rightarrow>
          if ids = bad_ids then \<lparr>status_code = 500, response_text = []\<rparr>
          else if u = ''http://stepik.org/api/sections''
          then \<lparr>status_code = 200, response_text = ''sections''\<rparr>
          else if u = ''http://stepik.org/api/units''
          then \<lparr>status_code = 200,
                response_text = (if ids = JList [JInt 100] then ''unit100'' else ''unit200'')\<rparr>
          else if u = ''http://stepik.org/api/lessons''
          then \<lparr>status_code = 200,
                response_text =
                  (if ids = JList [JInt 1000] then ''lesson1000'' else ''lesson2000'')\<rparr>
          else if u = ''http://stepik.org/api/steps''
          then \<lparr>status_code = 200,
                response_text =
                  (if ids = JList [JInt 1, JInt 2] then ''steps12'' else ''steps3'')\<rparr>
          else \<lparr>status_code = 404, response_text = []\<rparr>)"

definition course_server :: "json \<Rightarrow> StepikDispatcher" where
  "course_server bad_ids = make_dispatcher course_parser (course_get bad_ids)"

text \<open>A step whose block has no \<open>video\<close> key.\<close>

definition bare_step :: json where
  "bare_step = JObj [(''block'', JObj [(''name'', JStr ''text'')])]"

section \<open>Facts about the dispatcher\<close>

lemma bindR_simps [simp]:
  "bindR None f = None"
  "bindR (Some (Inl e)) f = Some (Inl e)"
  "bindR (Some (Inr x)) f = f x"
  by (simp_all add: bindR_def)

lemma bindE_simps [simp]:
  "bindE (Inl e) f = Inl e"
  "bindE (Inr x) f = f x"
  by (simp_all add: bindE_def)

subsection \<open>One unfolding of \<open>get_resources_list\<close> per branch\<close>

lemma grl_other:
  assumes "status_of self r ids page = Some c" "c \<noteq> 200" "c \<noteq> 431"
  shows "get_resources_list self r ids page = Some (Inl (ResourceAcquisitionFailure r c))"
  using assms
  by (subst get_resources_list.simps) (auto simp: status_of_def split: sum.splits)

lemma grl_431:
  assumes "status_of self r (JList xs) page = Some 431"
  shows "get_resources_list self r (JList xs) page =
     bindR (get_resources_list self r (JList (take (length xs div 2) xs)) 1) (\<lambda>left.
     bindR (get_resources_list self r (JList (drop (length xs div 2) xs)) 1) (\<lambda>right.
       Some (py_add left right)))"
  using assms
  apply (subst get_resources_list.simps)
  apply (auto simp: status_of_def bindR_def split: sum.splits intro!: arg_cong2[where f=Option.bind] ext)
  done

lemma grl_more:
  assumes "page_items self r ids page = Some (res, True)"
  shows "get_resources_list self r ids page =
     bindR (get_resources_list self r ids (page + 1)) (\<lambda>rest. Some (py_iadd res rest))"
  using assms
  apply (subst get_resources_list.simps)
  apply (auto simp: page_items_def bindR_def split: sum.splits if_splits)
  done

lemma grl_last:
  assumes "page_items self r ids page = Some (res, False)"
  shows "get_resources_list self r ids page = Some (Inr res)"
  using assms
  apply (subst get_resources_list.simps)
  apply (auto simp: page_items_def bindR_def split: sum.splits if_splits)
  done



lemma bindR_returns:
  assumes "m = Some y" "\<And>x. \<exists>z. f x = Some z"
  shows "\<exists>z. bindR m f = Some z"
  using assms by (cases y) (auto simp: bindR_def)

subsection \<open>Splitting and pagination\<close>

lemma atomic_concat:
  assumes "atomic_batches depth self r xs = Some leaves"
    and "\<forall>b\<in>set leaves. get_resources_list self r (JList b) 1 = Some (Inr (JList (res b)))"
  shows "get_resources_list self r (JList xs) 1 = Some (Inr (JList (concat (map res leaves))))"
  using assms
proof (induction depth arbitrary: xs leaves)
  case 0
  then show ?case by simp
next
  case (Suc depth)
  show ?case
  proof (cases "status_of self r (JList xs) 1 = Some 431")
    case True
    with Suc.prems(1) obtain ls rs where
      l: "atomic_batches depth self r (take (length xs div 2) xs) = Some ls" and
      r: "atomic_batches depth self r (drop (length xs div 2) xs) = Some rs" and
      lv: "leaves = ls @ rs"
      by (auto split: option.splits)
    have "get_resources_list self r (JList (take (length xs div 2) xs)) 1
            = Some (Inr (JList (concat (map res ls))))"
      using Suc.IH [OF l] Suc.prems(2) lv by simp
    moreover have "get_resources_list self r (JList (drop (length xs div 2) xs)) 1
            = Some (Inr (JList (concat (map res rs))))"
      using Suc.IH [OF r] Suc.prems(2) lv by simp
    ultimately show ?thesis
      using grl_431 [OF True] lv by simp
  next
    case False
    with Suc.prems show ?thesis by auto
  qed
qed

lemma pages_concat:
  assumes "\<forall>i<k. page_items self r ids (page + int i) = Some (JList (items i), True)"
    and "page_items self r ids (page + int k) = Some (JList (items k), False)"
  shows "get_resources_list self r ids page = Some (Inr (JList (concat (map items [0..<Suc k]))))"
  using assms
proof (induction k arbitrary: page items)
  case 0
  then show ?case by (simp add: grl_last)
next
  case (Suc k)
  have first: "page_items self r ids page = Some (JList (items 0), True)"
    using Suc.prems(1) by force
  have "\<forall>i<k. page_items self r ids (page + 1 + int i) = Some (JList (items (Suc i)), True)"
    using Suc.prems(1) by (auto simp: algebra_simps dest: spec [where x = "Suc i" for i])
  moreover have "page_items self r ids (page + 1 + int k) = Some (JList (items (Suc k)), False)"
    using Suc.prems(2) by (simp add: algebra_simps)
  ultimately have "get_resources_list self r ids (page + 1)
      = Some (Inr (JList (concat (map (\<lambda>i. items (Suc i)) [0..<Suc k]))))"
    using Suc.IH [of "page + 1" "\<lambda>i. items (Suc i)"] by simp
  moreover have "concat (map items [0..<Suc (Suc k)])
      = items 0 @ concat (map (\<lambda>i. items (Suc i)) [0..<Suc k])"
    by (simp only: upt_conv_Cons [of 0 "Suc (Suc k)"] map_Suc_upt [symmetric]) (simp add: comp_def)
  ultimately show ?case
    using grl_more [OF first] by simp
qed




section \<open>Facts about the resolver\<close>

lemma week_numbers: "[1..int k] = map (\<lambda>i. int i + 1) [0..<k]"
proof (induction k)
  case 0
  then show ?case by simp
next
  case (Suc k)
  have "[1..int (Suc k)] = [1..int k] @ [int k + 1]"
    using upto_rec2 [of 1 "int (Suc k)"] by (simp add: add.commute)
  with Suc show ?case by simp
qed

lemma weeks_loop_all:
  assumes "\<forall>w\<in>set ws. week_body d units w = Some (Inr (f w))"
  shows "weeks_loop d units None ws acc = Some (Inr (acc @ map f ws))"
  using assms by (induction ws arbitrary: acc) simp_all

lemma weeks_loop_skip:
  assumes "w \<notin> set ws"
  shows "weeks_loop d units (Some w) ws acc = Some (Inr acc)"
  using assms by (induction ws arbitrary: acc) auto

lemma weeks_loop_only:
  assumes "distinct ws" "w \<in> set ws"
  shows "weeks_loop d units (Some w) ws acc
    = bindR (week_body d units w) (\<lambda>videos. Some (Inr (acc @ [videos])))"
  using assms
proof (induction ws arbitrary: acc)
  case Nil
  then show ?case by simp
next
  case (Cons x ws)
  show ?case
  proof (cases "x = w")
    case True
    with Cons.prems have "w \<notin> set ws" by simp
    then have "\<And>a. weeks_loop d units (Some w) ws a = Some (Inr a)"
      by (rule weeks_loop_skip)
    with True show ?thesis by simp
  next
    case False
    with Cons show ?thesis by simp
  qed
qed

lemma weeks_loop_fail:
  assumes "\<forall>w\<in>set pre. week_body d units w = Some (Inr (f w))"
    and "week_body d units w = Some (Inl e)"
  shows "weeks_loop d units None (pre @ w # rest) acc = Some (Inl e)"
  using assms by (induction pre arbitrary: acc) simp_all

lemma resolver_unfold:
  assumes "get_list_of_week_ids d c = Inr week_ids"
    and "get_lists_of_units d week_ids = Some (Inr units)"
    and "py_len week_ids = Inr k"
  shows "get_course_videos_urls_by_section c d only = weeks_loop d units only [1..int k] []"
  using assms by (simp add: get_course_videos_urls_by_section_def)

lemma week_body_fails:
  assumes "list_index units (w - 1) = Inr uids"
    and "get_resources_list d ''units'' uids 1 = Some (Inl e)
      \<or> (get_list_of_lessons_ids d uids = Some (Inr ls)
          \<and> get_resources_list d ''lessons'' (JList ls) 1 = Some (Inl e))
      \<or> (get_list_of_lessons_ids d uids = Some (Inr ls)
          \<and> get_lists_of_step_ids d ls = Some (Inr ss)
          \<and> flatten_step_ids ss = Inr fs
          \<and> get_resources_list d ''steps'' (JList fs) 1 = Some (Inl e))"
  shows "week_body d units w = Some (Inl e)"
  using assms
  by (auto simp: week_body_def get_list_of_lessons_ids_def get_lists_of_step_ids_def
      get_list_of_step_data_def)

lemma resolver_all_weeks:
  assumes "get_list_of_week_ids d c = Inr week_ids"
    and "get_lists_of_units d week_ids = Some (Inr units)"
    and "py_len week_ids = Inr k"
    and "\<forall>i<k. week_body d units (int i + 1) = Some (Inr (vs i))"
  shows "get_course_videos_urls_by_section c d None = Some (Inr (map vs [0..<k]))"
proof -
  have "\<forall>w\<in>set [1..int k]. week_body d units w = Some (Inr (vs (nat (w - 1))))"
    using assms(4) by (auto simp: week_numbers)
  then have "weeks_loop d units None [1..int k] [] = Some (Inr ([] @ map (\<lambda>w. vs (nat (w - 1))) [1..int k]))"
    by (rule weeks_loop_all)
  moreover have "map (\<lambda>w. vs (nat (w - 1))) [1..int k] = map vs [0..<k]"
    by (simp add: week_numbers comp_def)
  ultimately show ?thesis
    using resolver_unfold [OF assms(1-3)] by simp
qed

lemma resolver_week_fails:
  assumes "get_list_of_week_ids d c = Inr week_ids"
    and "get_lists_of_units d week_ids = Some (Inr units)"
    and "py_len week_ids = Inr k"
    and "j < k"
    and "\<forall>i<j. week_body d units (int i + 1) = Some (Inr (vs i))"
    and "week_body d units (int j + 1) = Some (Inl e)"
  shows "get_course_videos_urls_by_section c d None = Some (Inl e)"
proof -
  have "[0..<k] = [0..<j] @ [j..<k]"
    using upt_add_eq_append [of 0 j "k - j"] \<open>j < k\<close> by simp
  moreover have "[j..<k] = j # [Suc j..<k]"
    using \<open>j < k\<close> by (rule upt_conv_Cons)
  ultimately have "[0..<k] = [0..<j] @ j # [Suc j..<k]" by simp
  then have split: "[1..int k] = map (\<lambda>i. int i + 1) [0..<j] @ (int j + 1)
      # map (\<lambda>i. int i + 1) [Suc j..<k]"
    by (simp add: week_numbers)
  have "\<forall>w\<in>set (map (\<lambda>i. int i + 1) [0..<j]). week_body d units w = Some (Inr (vs (nat (w - 1))))"
    using assms(5) by auto
  from weeks_loop_fail [OF this assms(6)] split
  have "weeks_loop d units None [1..int k] [] = Some (Inl e)" by simp
  then show ?thesis using resolver_unfold [OF assms(1-3)] by simp
qed

lemma resolver_one_week:
  assumes "get_list_of_week_ids d c = Inr week_ids"
    and "get_lists_of_units d week_ids = Some (Inr units)"
    and "py_len week_ids = Inr k"
  shows "get_course_videos_urls_by_section c d (Some w) =
    (if 1 \<le> w \<and> w \<le> int k then bindR (week_body d units w) (\<lambda>videos. Some (Inr [videos]))
     else Some (Inr []))"
proof (cases "1 \<le> w \<and> w \<le> int k")
  case True
  then have "w \<in> set [1..int k]" by simp
  moreover have "distinct [1..int k]" by simp
  ultimately have "weeks_loop d units (Some w) [1..int k] []
      = bindR (week_body d units w) (\<lambda>videos. Some (Inr ([] @ [videos])))"
    by (rule weeks_loop_only [rotated])
  with True show ?thesis using resolver_unfold [OF assms] by simp
next
  case False
  then have "w \<notin> set [1..int k]" by auto
  then have "weeks_loop d units (Some w) [1..int k] [] = Some (Inr [])"
    by (rule weeks_loop_skip)
  with False show ?thesis using resolver_unfold [OF assms] by auto
qed

lemma units_fetch_fails:
  assumes "get_list_of_week_ids d c = Inr week_ids"
    and "get_resources_list d ''sections'' week_ids 1 = Some (Inl e)"
  shows "get_course_videos_urls_by_section c d only = Some (Inl e)"
  using assms by (simp add: get_course_videos_urls_by_section_def get_lists_of_units_def)

lemma weeks_loop_returns:
  assumes "weeks_loop d units None ws acc = Some (Inr out)"
  shows "\<exists>vs. out = acc @ vs \<and> length vs = length ws
    \<and> (\<forall>i<length ws. week_body d units (ws ! i) = Some (Inr (vs ! i)))"
  using assms
proof (induction ws arbitrary: acc)
  case Nil
  then show ?case by simp
next
  case (Cons w ws)
  from Cons.prems obtain v where v: "week_body d units w = Some (Inr v)"
    and rest: "weeks_loop d units None ws (acc @ [v]) = Some (Inr out)"
    by (auto simp: bindR_def split: bind_splits sum.splits)
  from Cons.IH [OF rest] obtain vs where vs: "out = (acc @ [v]) @ vs" "length vs = length ws"
    "\<forall>i<length ws. week_body d units (ws ! i) = Some (Inr (vs ! i))" by blast
  have "\<forall>i<length (w # ws). week_body d units ((w # ws) ! i) = Some (Inr ((v # vs) ! i))"
    using v vs(3) by (auto simp: nth_Cons split: nat.splits)
  with vs(1,2) show ?case
    by (intro exI [of _ "v # vs"]) simp
qed

lemma resolver_returns:
  assumes "get_list_of_week_ids d c = Inr week_ids"
    and "get_lists_of_units d week_ids = Some (Inr units)"
    and "py_len week_ids = Inr k"
    and "get_course_videos_urls_by_section c d None = Some (Inr out)"
  shows "length out = k \<and> (\<forall>i<k. week_body d units (int i + 1) = Some (Inr (out ! i)))"
proof -
  have "weeks_loop d units None [1..int k] [] = Some (Inr out)"
    using resolver_unfold [OF assms(1-3)] assms(4) by simp
  from weeks_loop_returns [OF this] show ?thesis
    by (auto simp: week_numbers)
qed

section \<open>Facts about the video lists and the quality selection\<close>

lemma find_link_records:
  "find_link quality (map (\<lambda>(q, u). JObj [(''quality'', JStr q), (''url'', JStr u)]) pairs)
     = map_option JStr (map_of pairs quality)"
  by (induction pairs) auto

lemma mapE_stops:
  assumes "mapE f xs = Inr ys" and "f x = Inl e"
  shows "mapE f (xs @ x # zs) = Inl e"
  using assms
proof (induction xs arbitrary: ys)
  case Nil
  then show ?case by simp
next
  case (Cons a xs)
  then show ?case
    by (cases "f a"; cases "mapE f xs") auto
qed

lemma mapE_map: "mapE f (map g xs) = mapE (\<lambda>x. f (g x)) xs"
  by (induction xs) simp_all

lemma mapE_all:
  assumes "\<forall>x\<in>set xs. f x = Inr (g x)"
  shows "mapE f xs = Inr (map g xs)"
  using assms by (induction xs) simp_all

lemma only_video_blocks_filter:
  assumes "\<forall>s\<in>set steps. getitem_str s ''block'' = Inr (blk s)
      \<and> getitem_str (blk s) ''video'' = Inr (vid s)"
  shows "only_video_blocks steps = Inr (map blk (filter (\<lambda>s. truthy (vid s)) steps))"
  using assms by (induction steps) (simp_all add: step_has_video_def)

lemma week_videos_filter:
  assumes has: "\<forall>s\<in>set steps. step_has_video s = Inr (vid s)"
    and urls: "\<forall>s\<in>set steps. truthy (vid s) \<longrightarrow> getitem_str (vid s) ''urls'' = Inr (urls s)"
  shows "week_videos (JList steps)
    = Inr (map (\<lambda>s. \<lparr>available_qualities = urls s\<rparr>) (filter (\<lambda>s. truthy (vid s)) steps))"
proof -
  have "\<exists>b. getitem_str s ''block'' = Inr b \<and> getitem_str b ''video'' = Inr (vid s)"
    if "s \<in> set steps" for s
  proof (cases "getitem_str s ''block''")
    case (Inl e)
    with has that show ?thesis by (auto simp: step_has_video_def)
  next
    case (Inr b)
    with has that show ?thesis by (auto simp: step_has_video_def)
  qed
  then obtain blk where blk: "\<forall>s\<in>set steps. getitem_str s ''block'' = Inr (blk s)
      \<and> getitem_str (blk s) ''video'' = Inr (vid s)"
    by metis
  let ?kept = "filter (\<lambda>s. truthy (vid s)) steps"
  have "\<forall>s\<in>set ?kept. video_of_block (blk s) = Inr \<lparr>available_qualities = urls s\<rparr>"
    using blk urls by (simp add: video_of_block_def)
  then have "mapE (\<lambda>s. video_of_block (blk s)) ?kept
      = Inr (map (\<lambda>s. \<lparr>available_qualities = urls s\<rparr>) ?kept)"
    by (rule mapE_all)
  then have "mapE video_of_block (map blk ?kept)
      = Inr (map (\<lambda>s. \<lparr>available_qualities = urls s\<rparr>) ?kept)"
    by (simp add: mapE_map)
  then show ?thesis
    using only_video_blocks_filter [OF blk] by (simp add: week_videos_def)
qed

section \<open>The claims\<close>

text \<open>
  C1. When the request for an id list is answered 431, \<open>get_resources_list\<close> fetches the
  first \<open>n div 2\<close> ids, then the remaining ids, and returns the sum of the two results,
  left before right; on lists this sum is concatenation. Whatever the shape of the tree
  of splits, the result is the concatenation, from left to right, of the results of the
  batches at its leaves, when these succeed.
\<close>

theorem split_concatenates_atomic_batches:
  "(status_of self r (JList ids) page = Some 431 \<longrightarrow>
      get_resources_list self r (JList ids) page =
        bindR (get_resources_list self r (JList (take (length ids div 2) ids)) 1) (\<lambda>left.
        bindR (get_resources_list self r (JList (drop (length ids div 2) ids)) 1) (\<lambda>right.
          Some (py_add left right))))
   \<and> py_add (JList ls) (JList rs) = Inr (JList (ls @ rs))
   \<and> (atomic_batches depth self r ids = Some leaves
        \<and> (\<forall>b\<in>set leaves. get_resources_list self r (JList b) 1 = Some (Inr (JList (res b))))
      \<longrightarrow> get_resources_list self r (JList ids) 1 = Some (Inr (JList (concat (map res leaves)))))"
  using grl_431 [of self r ids page] atomic_concat [of depth self r ids leaves res]
  by simp

theorem split_concatenates_atomic_batches_witness:
  "status_of split_server ''steps'' (JList [JInt 1, JInt 2, JInt 3]) 1 = Some 431
   \<and> atomic_batches 3 split_server ''steps'' [JInt 1, JInt 2, JInt 3]
       = Some [[JInt 1], [JInt 2], [JInt 3]]
   \<and> get_resources_list split_server ''steps'' (JList [JInt 1]) 1
       = Some (Inr (JList (split_result [JInt 1])))
   \<and> get_resources_list split_server ''steps'' (JList [JInt 2]) 1
       = Some (Inr (JList (split_result [JInt 2])))
   \<and> get_resources_list split_server ''steps'' (JList [JInt 3]) 1
       = Some (Inr (JList (split_result [JInt 3])))
   \<and> get_resources_list split_server ''steps'' (JList [JInt 1, JInt 2, JInt 3]) 1
       = Some (Inr (JList [JStr ''1+'', JStr ''1.'', JStr ''2+'', JStr ''2.'',
                           JStr ''3+'', JStr ''3.'']))
   \<and> get_resources_list split_server ''steps'' (JList [JInt 1, JInt 2, JInt 3]) 1 =
       bindR (get_resources_list split_server ''steps''
                (JList (take (length [JInt 1, JInt 2, JInt 3] div 2) [JInt 1, JInt 2, JInt 3])) 1)
         (\<lambda>left.
       bindR (get_resources_list split_server ''steps''
                (JList (drop (length [JInt 1, JInt 2, JInt 3] div 2) [JInt 1, JInt 2, JInt 3])) 1)
         (\<lambda>right. Some (py_add left right)))"
proof -
  have st: "status_of split_server ''steps'' (JList [JInt 1, JInt 2, JInt 3]) 1 = Some 431"
    by code_simp
  have ab: "atomic_batches 3 split_server ''steps'' [JInt 1, JInt 2, JInt 3]
      = Some [[JInt 1], [JInt 2], [JInt 3]]"
    by code_simp
  have b1: "get_resources_list split_server ''steps'' (JList [JInt 1]) 1
      = Some (Inr (JList (split_result [JInt 1])))"
    by code_simp
  have b2: "get_resources_list split_server ''steps'' (JList [JInt 2]) 1
      = Some (Inr (JList (split_result [JInt 2])))"
    by code_simp
  have b3: "get_resources_list split_server ''steps'' (JList [JInt 3]) 1
      = Some (Inr (JList (split_result [JInt 3])))"
    by code_simp
  have lv: "\<forall>b\<in>set [[JInt 1], [JInt 2], [JInt 3]].
      get_resources_list split_server ''steps'' (JList b) 1 = Some (Inr (JList (split_result b)))"
    using b1 b2 b3 by simp
  have cc: "concat (map split_result [[JInt 1], [JInt 2], [JInt 3]])
      = [JStr ''1+'', JStr ''1.'', JStr ''2+'', JStr ''2.'', JStr ''3+'', JStr ''3.'']"
    by code_simp
  note t = split_concatenates_atomic_batches
      [of split_server "''steps''" "[JInt 1, JInt 2, JInt 3]" 1 "[]" "[]" 3
        "[[JInt 1], [JInt 2], [JInt 3]]" split_result]
  from t st have halves:
    "get_resources_list split_server ''steps'' (JList [JInt 1, JInt 2, JInt 3]) 1 =
       bindR (get_resources_list split_server ''steps''
                (JList (take (length [JInt 1, JInt 2, JInt 3] div 2) [JInt 1, JInt 2, JInt 3])) 1)
         (\<lambda>left.
       bindR (get_resources_list split_server ''steps''
                (JList (drop (length [JInt 1, JInt 2, JInt 3] div 2) [JInt 1, JInt 2, JInt 3])) 1)
         (\<lambda>right. Some (py_add left right)))"
    by blast
  from t ab lv
  have "get_resources_list split_server ''steps'' (JList [JInt 1, JInt 2, JInt 3]) 1
      = Some (Inr (JList (concat (map split_result [[JInt 1], [JInt 2], [JInt 3]]))))"
    by blast
  with st ab b1 b2 b3 cc halves show ?thesis by simp
qed




text \<open>
  C3. When a request is answered 200 and the has-next flag of the page is true,
  \<open>get_resources_list\<close> fetches page + 1 for the same ids and appends that result to the
  items of the current page; it walks forward until the flag is false, so that \<open>k\<close> pages
  with a true flag followed by one with a false flag give the items of all \<open>k + 1\<close> pages
  in page order, and in particular three pages (true, true, false) give the three pages'
  items in page order.
\<close>

theorem pagination_walks_forward:
  "(page_items self r ids page = Some (items, True) \<longrightarrow>
      get_resources_list self r ids page =
        bindR (get_resources_list self r ids (page + 1)) (\<lambda>rest. Some (py_iadd items rest)))
   \<and> ((\<forall>i<k. page_items self r ids (page + int i) = Some (JList (its i), True))
        \<and> page_items self r ids (page + int k) = Some (JList (its k), False)
      \<longrightarrow> get_resources_list self r ids page = Some (Inr (JList (concat (map its [0..<Suc k])))))
   \<and> (page_items self r ids page = Some (JList a, True)
        \<and> page_items self r ids (page + 1) = Some (JList b, True)
        \<and> page_items self r ids (page + 2) = Some (JList c, False)
      \<longrightarrow> get_resources_list self r ids page = Some (Inr (JList (a @ b @ c))))"
proof (intro conjI impI)
  assume "page_items self r ids page = Some (items, True)"
  then show "get_resources_list self r ids page =
        bindR (get_resources_list self r ids (page + 1)) (\<lambda>rest. Some (py_iadd items rest))"
    by (rule grl_more)
next
  assume "(\<forall>i<k. page_items self r ids (page + int i) = Some (JList (its i), True))
        \<and> page_items self r ids (page + int k) = Some (JList (its k), False)"
  then show "get_resources_list self r ids page = Some (Inr (JList (concat (map its [0..<Suc k]))))"
    using pages_concat [of k self r ids page its] by blast
next
  assume three: "page_items self r ids page = Some (JList a, True)
        \<and> page_items self r ids (page + 1) = Some (JList b, True)
        \<and> page_items self r ids (page + 2) = Some (JList c, False)"
  let ?its = "\<lambda>i::nat. if i = 0 then a else if i = 1 then b else c"
  have "\<forall>i<2. page_items self r ids (page + int i) = Some (JList (?its i), True)"
    using three by (auto simp: less_2_cases_iff)
  moreover have "page_items self r ids (page + int 2) = Some (JList (?its 2), False)"
    using three by simp
  ultimately have "get_resources_list self r ids page
      = Some (Inr (JList (concat (map ?its [0..<Suc 2]))))"
    by (rule pages_concat)
  moreover have "concat (map ?its [0..<Suc 2]) = a @ b @ c"
    by (simp add: upt_rec numeral_2_eq_2)
  ultimately show "get_resources_list self r ids page = Some (Inr (JList (a @ b @ c)))"
    by simp
qed

theorem pagination_walks_forward_witness:
  "page_items paged_server ''steps'' (JList [JInt 5]) 1 = Some (JList [JStr ''a+''], True)
   \<and> page_items paged_server ''steps'' (JList [JInt 5]) (1 + 1) = Some (JList [JStr ''b+''], True)
   \<and> page_items paged_server ''steps'' (JList [JInt 5]) (1 + 2) = Some (JList [JStr ''c.''], False)
   \<and> get_resources_list paged_server ''steps'' (JList [JInt 5]) 1
       = Some (Inr (JList ([JStr ''a+''] @ [JStr ''b+''] @ [JStr ''c.''])))
   \<and> get_resources_list paged_server ''steps'' (JList [JInt 5]) 1
       = Some (Inr (JList (concat (map paged_items [0..<Suc 2]))))
   \<and> get_resources_list paged_server ''steps'' (JList [JInt 5]) 1
       = bindR (get_resources_list paged_server ''steps'' (JList [JInt 5]) (1 + 1))
           (\<lambda>rest. Some (py_iadd (JList [JStr ''a+'']) rest))"
proof -
  have p1: "page_items paged_server ''steps'' (JList [JInt 5]) 1 = Some (JList [JStr ''a+''], True)"
    by code_simp
  have p2: "page_items paged_server ''steps'' (JList [JInt 5]) (1 + 1)
      = Some (JList [JStr ''b+''], True)"
    by code_simp
  have p3: "page_items paged_server ''steps'' (JList [JInt 5]) (1 + 2)
      = Some (JList [JStr ''c.''], False)"
    by code_simp
  have q: "\<forall>i<2. page_items paged_server ''steps'' (JList [JInt 5]) (1 + int i)
               = Some (JList (paged_items i), True)"
    using p1 p2 by (auto simp: less_2_cases_iff paged_items_def)
  have q3: "page_items paged_server ''steps'' (JList [JInt 5]) (1 + int 2)
               = Some (JList (paged_items 2), False)"
    using p3 by (simp add: paged_items_def)
  note t = pagination_walks_forward
    [of paged_server "''steps''" "JList [JInt 5]" 1 "JList [JStr ''a+'']" 2 paged_items
      "[JStr ''a+'']" "[JStr ''b+'']" "[JStr ''c.'']"]
  from t p1 have e1: "get_resources_list paged_server ''steps'' (JList [JInt 5]) 1
       = bindR (get_resources_list paged_server ''steps'' (JList [JInt 5]) (1 + 1))
           (\<lambda>rest. Some (py_iadd (JList [JStr ''a+'']) rest))"
    by blast
  from t q q3 have e2: "get_resources_list paged_server ''steps'' (JList [JInt 5]) 1
       = Some (Inr (JList (concat (map paged_items [0..<Suc 2]))))"
    by blast
  from t p1 p2 p3 have e3: "get_resources_list paged_server ''steps'' (JList [JInt 5]) 1
       = Some (Inr (JList ([JStr ''a+''] @ [JStr ''b+''] @ [JStr ''c.''])))"
    by blast
  from p1 p2 p3 e1 e2 e3 show ?thesis by blast
qed

text \<open>
  C7. A request answered with a status other than 200 and 431 makes \<open>get_resources_list\<close>
  raise \<open>ResourceAcquisitionFailure\<close> with the resource type and the status code. An
  exception raised by the dispatcher aborts the whole resolution, which then returns no
  list of weeks at all: the exception of the \<open>sections\<close> request, and the exception of the
  \<open>units\<close>, \<open>lessons\<close> or \<open>steps\<close> request of a week, whatever the weeks before it gave,
  is the outcome of \<open>get_course_videos_urls_by_section\<close>.
\<close>

theorem acquisition_failure_aborts_resolution:
  "(status_of self r ids page = Some code \<and> code \<noteq> 200 \<and> code \<noteq> 431 \<longrightarrow>
      get_resources_list self r ids page = Some (Inl (ResourceAcquisitionFailure r code)))
   \<and> (get_list_of_week_ids self c = Inr week_ids
        \<and> get_resources_list self ''sections'' week_ids 1 = Some (Inl e)
      \<longrightarrow> get_course_videos_urls_by_section c self only = Some (Inl e))
   \<and> (get_list_of_week_ids self c = Inr week_ids
        \<and> get_lists_of_units self week_ids = Some (Inr units)
        \<and> py_len week_ids = Inr k
        \<and> j < k
        \<and> (\<forall>i<j. week_body self units (int i + 1) = Some (Inr (vs i)))
        \<and> list_index units (int j) = Inr uids
        \<and> (get_resources_list self ''units'' uids 1 = Some (Inl e)
            \<or> (get_list_of_lessons_ids self uids = Some (Inr ls)
                \<and> get_resources_list self ''lessons'' (JList ls) 1 = Some (Inl e))
            \<or> (get_list_of_lessons_ids self uids = Some (Inr ls)
                \<and> get_lists_of_step_ids self ls = Some (Inr ss)
                \<and> flatten_step_ids ss = Inr fs
                \<and> get_resources_list self ''steps'' (JList fs) 1 = Some (Inl e)))
      \<longrightarrow> get_course_videos_urls_by_section c self None = Some (Inl e)
          \<and> get_course_videos_urls_by_section c self (Some (int j + 1)) = Some (Inl e))"
proof (intro conjI impI)
  assume "status_of self r ids page = Some code \<and> code \<noteq> 200 \<and> code \<noteq> 431"
  then show "get_resources_list self r ids page = Some (Inl (ResourceAcquisitionFailure r code))"
    using grl_other by blast
next
  assume "get_list_of_week_ids self c = Inr week_ids
        \<and> get_resources_list self ''sections'' week_ids 1 = Some (Inl e)"
  then show "get_course_videos_urls_by_section c self only = Some (Inl e)"
    using units_fetch_fails by blast
next
  assume a: "get_list_of_week_ids self c = Inr week_ids
        \<and> get_lists_of_units self week_ids = Some (Inr units)
        \<and> py_len week_ids = Inr k
        \<and> j < k
        \<and> (\<forall>i<j. week_body self units (int i + 1) = Some (Inr (vs i)))
        \<and> list_index units (int j) = Inr uids
        \<and> (get_resources_list self ''units'' uids 1 = Some (Inl e)
            \<or> (get_list_of_lessons_ids self uids = Some (Inr ls)
                \<and> get_resources_list self ''lessons'' (JList ls) 1 = Some (Inl e))
            \<or> (get_list_of_lessons_ids self uids = Some (Inr ls)
                \<and> get_lists_of_step_ids self ls = Some (Inr ss)
                \<and> flatten_step_ids ss = Inr fs
                \<and> get_resources_list self ''steps'' (JList fs) 1 = Some (Inl e)))"
  then have "list_index units (int j + 1 - 1) = Inr uids" by simp
  from week_body_fails [OF this] a
  have wb: "week_body self units (int j + 1) = Some (Inl e)" by blast
  from a have pre: "get_list_of_week_ids self c = Inr week_ids"
    "get_lists_of_units self week_ids = Some (Inr units)" "py_len week_ids = Inr k"
    "j < k" "\<forall>i<j. week_body self units (int i + 1) = Some (Inr (vs i))"
    by blast+
  show "get_course_videos_urls_by_section c self None = Some (Inl e)"
    using resolver_week_fails [OF pre wb] .
  show "get_course_videos_urls_by_section c self (Some (int j + 1)) = Some (Inl e)"
    using resolver_one_week [OF pre(1-3), of "int j + 1"] wb pre(4) by simp
qed

theorem acquisition_failure_aborts_resolution_witness:
  "get_resources_list split_server ''steps'' (JList []) 1
     = Some (Inl (ResourceAcquisitionFailure ''steps'' 500))
   \<and> get_course_videos_urls_by_section 5 (course_server (JList [JInt 10, JInt 20])) None
     = Some (Inl (ResourceAcquisitionFailure ''sections'' 500))
   \<and> week_body (course_server (JList [JInt 200])) [JList [JInt 100], JList [JInt 200]] 1
     = Some (Inr [\<lparr>available_qualities = sample_urls\<rparr>])
   \<and> get_course_videos_urls_by_section 5 (course_server (JList [JInt 200])) None
     = Some (Inl (ResourceAcquisitionFailure ''units'' 500))
   \<and> get_course_videos_urls_by_section 5 (course_server (JList [JInt 200])) (Some 2)
     = Some (Inl (ResourceAcquisitionFailure ''units'' 500))
   \<and> get_course_videos_urls_by_section 5 (course_server (JList [JInt 1000])) None
     = Some (Inl (ResourceAcquisitionFailure ''lessons'' 500))
   \<and> get_course_videos_urls_by_section 5 (course_server (JList [JInt 1, JInt 2])) None
     = Some (Inl (ResourceAcquisitionFailure ''steps'' 500))"
proof -
  note t = acquisition_failure_aborts_resolution
  have a: "get_resources_list split_server ''steps'' (JList []) 1
     = Some (Inl (ResourceAcquisitionFailure ''steps'' 500))"
  proof -
    have "status_of split_server ''steps'' (JList []) 1 = Some 500" by code_simp
    with t [where self = split_server and r = "''steps''" and ids = "JList []" and page = 1
        and code = 500]
    show ?thesis by simp
  qed
  have b: "get_course_videos_urls_by_section 5 (course_server (JList [JInt 10, JInt 20])) None
     = Some (Inl (ResourceAcquisitionFailure ''sections'' 500))"
  proof -
    have "get_list_of_week_ids (course_server (JList [JInt 10, JInt 20])) 5
        = Inr (JList [JInt 10, JInt 20])" by code_simp
    moreover have "get_resources_list (course_server (JList [JInt 10, JInt 20])) ''sections''
        (JList [JInt 10, JInt 20]) 1 = Some (Inl (ResourceAcquisitionFailure ''sections'' 500))"
      by code_simp
    ultimately show ?thesis
      using t [where self = "course_server (JList [JInt 10, JInt 20])" and c = 5
          and week_ids = "JList [JInt 10, JInt 20]"
          and e = "ResourceAcquisitionFailure ''sections'' 500" and only = None]
      by blast
  qed
  let ?units = "[JList [JInt 100], JList [JInt 200]]"
  have w1: "week_body (course_server (JList [JInt 200])) ?units 1
     = Some (Inr [\<lparr>available_qualities = sample_urls\<rparr>])"
    by code_simp
  have c: "get_course_videos_urls_by_section 5 (course_server (JList [JInt 200])) None
       = Some (Inl (ResourceAcquisitionFailure ''units'' 500))
     \<and> get_course_videos_urls_by_section 5 (course_server (JList [JInt 200])) (Some (int 1 + 1))
       = Some (Inl (ResourceAcquisitionFailure ''units'' 500))"
  proof -
    let ?d = "course_server (JList [JInt 200])"
    have 1: "get_list_of_week_ids ?d 5 = Inr (JList [JInt 10, JInt 20])" by code_simp
    have 2: "get_lists_of_units ?d (JList [JInt 10, JInt 20]) = Some (Inr ?units)" by code_simp
    have 3: "py_len (JList [JInt 10, JInt 20]) = Inr 2" by simp
    have 4: "(1::nat) < 2" by simp
    have 5: "\<forall>i<1. week_body ?d ?units (int i + 1)
        = Some (Inr ((\<lambda>i. [\<lparr>available_qualities = sample_urls\<rparr>]) i))"
      using w1 by simp
    have 6: "list_index ?units (int 1) = Inr (JList [JInt 200])" by (simp add: list_index_def)
    have 7: "get_resources_list ?d ''units'' (JList [JInt 200]) 1
        = Some (Inl (ResourceAcquisitionFailure ''units'' 500))" by code_simp
    from t [where self = ?d and c = 5 and week_ids = "JList [JInt 10, JInt 20]"
        and e = "ResourceAcquisitionFailure ''units'' 500" and units = ?units and k = 2
        and j = 1 and vs = "\<lambda>i. [\<lparr>available_qualities = sample_urls\<rparr>]"
        and uids = "JList [JInt 200]"] 1 2 3 4 5 6 7
    show ?thesis by blast
  qed
  have d: "get_course_videos_urls_by_section 5 (course_server (JList [JInt 1000])) None
       = Some (Inl (ResourceAcquisitionFailure ''lessons'' 500))"
  proof -
    let ?d = "course_server (JList [JInt 1000])"
    have 1: "get_list_of_week_ids ?d 5 = Inr (JList [JInt 10, JInt 20])" by code_simp
    have 2: "get_lists_of_units ?d (JList [JInt 10, JInt 20]) = Some (Inr ?units)" by code_simp
    have 3: "py_len (JList [JInt 10, JInt 20]) = Inr 2" by simp
    have 4: "(0::nat) < 2" by simp
    have 5: "\<forall>i<0. week_body ?d ?units (int i + 1) = Some (Inr ((\<lambda>i. []) i))" by simp
    have 6: "list_index ?units (int 0) = Inr (JList [JInt 100])" by (simp add: list_index_def)
    have 7: "get_list_of_lessons_ids ?d (JList [JInt 100]) = Some (Inr [JInt 1000])"
      by code_simp
    have 8: "get_resources_list ?d ''lessons'' (JList [JInt 1000]) 1
        = Some (Inl (ResourceAcquisitionFailure ''lessons'' 500))" by code_simp
    from t [where self = ?d and c = 5 and week_ids = "JList [JInt 10, JInt 20]"
        and e = "ResourceAcquisitionFailure ''lessons'' 500" and units = ?units and k = 2
        and j = 0 and vs = "\<lambda>i. []" and uids = "JList [JInt 100]" and ls = "[JInt 1000]"]
      1 2 3 4 5 6 7 8
    show ?thesis by blast
  qed
  have e: "get_course_videos_urls_by_section 5 (course_server (JList [JInt 1, JInt 2])) None
       = Some (Inl (ResourceAcquisitionFailure ''steps'' 500))"
  proof -
    let ?d = "course_server (JList [JInt 1, JInt 2])"
    have 1: "get_list_of_week_ids ?d 5 = Inr (JList [JInt 10, JInt 20])" by code_simp
    have 2: "get_lists_of_units ?d (JList [JInt 10, JInt 20]) = Some (Inr ?units)" by code_simp
    have 3: "py_len (JList [JInt 10, JInt 20]) = Inr 2" by simp
    have 4: "(0::nat) < 2" by simp
    have 5: "\<forall>i<0. week_body ?d ?units (int i + 1) = Some (Inr ((\<lambda>i. []) i))" by simp
    have 6: "list_index ?units (int 0) = Inr (JList [JInt 100])" by (simp add: list_index_def)
    have 7: "get_list_of_lessons_ids ?d (JList [JInt 100]) = Some (Inr [JInt 1000])"
      by code_simp
    have 8: "get_lists_of_step_ids ?d [JInt 1000] = Some (Inr [JList [JInt 1, JInt 2]])"
      by code_simp
    have 9: "flatten_step_ids [JList [JInt 1, JInt 2]] = Inr [JInt 1, JInt 2]"
      by code_simp
    have 10: "get_resources_list ?d ''steps'' (JList [JInt 1, JInt 2]) 1
        = Some (Inl (ResourceAcquisitionFailure ''steps'' 500))" by code_simp
    from t [where self = ?d and c = 5 and week_ids = "JList [JInt 10, JInt 20]"
        and e = "ResourceAcquisitionFailure ''steps'' 500" and units = ?units and k = 2
        and j = 0 and vs = "\<lambda>i. []" and uids = "JList [JInt 100]" and ls = "[JInt 1000]"
        and ss = "[JList [JInt 1, JInt 2]]" and fs = "[JInt 1, JInt 2]"]
      1 2 3 4 5 6 7 8 9 10
    show ?thesis by blast
  qed
  from a b w1 c d e show ?thesis by simp
qed

text \<open>
  C8. The constructor exchanges the client id and secret for a token: on status 200,
  with a body that parses to a value with the key \<open>access_token\<close>, the dispatcher holds
  that token; on status 401 it raises \<open>WrongCredentials\<close>; on any other status it raises
  \<open>AuthenticationFailure\<close> with the status code.
\<close>

theorem token_exchange_outcomes:
  "(status_code (post net ''https://stepik.org/oauth2/token/'' client_id client_secret) = 200
      \<and> parser (response_text (post net ''https://stepik.org/oauth2/token/'' client_id client_secret))
          = Inr body
      \<and> getitem_str body ''access_token'' = Inr tok
    \<longrightarrow> init client_id client_secret parser net
          = Inr \<lparr>json_parser = parser, net_manager = net, token = tok\<rparr>)
   \<and> (status_code (post net ''https://stepik.org/oauth2/token/'' client_id client_secret) = 401
    \<longrightarrow> init client_id client_secret parser net = Inl WrongCredentials)
   \<and> (status_code (post net ''https://stepik.org/oauth2/token/'' client_id client_secret) = code
      \<and> code \<noteq> 200 \<and> code \<noteq> 401
    \<longrightarrow> init client_id client_secret parser net = Inl (AuthenticationFailure code))"
  by (auto simp: init_def Let_def)

theorem token_exchange_outcomes_witness:
  "init ''id'' ''secret'' token_parser (auth_net 200)
     = Inr \<lparr>json_parser = token_parser, net_manager = auth_net 200, token = JStr ''abc123''\<rparr>
   \<and> init ''id'' ''secret'' token_parser (auth_net 401) = Inl WrongCredentials
   \<and> init ''id'' ''secret'' token_parser (auth_net 503) = Inl (AuthenticationFailure 503)"
proof -
  have "init ''id'' ''secret'' token_parser (auth_net 200)
     = Inr \<lparr>json_parser = token_parser, net_manager = auth_net 200, token = JStr ''abc123''\<rparr>"
    using token_exchange_outcomes [of "auth_net 200" "''id''" "''secret''" token_parser
        "JObj [(''access_token'', JStr ''abc123'')]" "JStr ''abc123''"]
    by (simp add: auth_net_def token_parser_def)
  moreover have "init ''id'' ''secret'' token_parser (auth_net 401) = Inl WrongCredentials"
    using token_exchange_outcomes [of "auth_net 401" "''id''" "''secret''"]
    by (simp add: auth_net_def)
  moreover have "init ''id'' ''secret'' token_parser (auth_net 503) = Inl (AuthenticationFailure 503)"
    using token_exchange_outcomes [of "auth_net 503" "''id''" "''secret''" _ _ _ 503]
    by (simp add: auth_net_def)
  ultimately show ?thesis by simp
qed

text \<open>
  C4. Without a week filter, for a course whose section list has \<open>k\<close> entries, the
  resolver returns exactly \<open>k\<close> lists of videos, the \<open>i\<close>-th being the videos of week \<open>i\<close>:
  if every week's fetches succeed the result is the list of the weeks' videos in section
  order, a week without videos appearing as the empty list; and whatever the resolver
  returns has length \<open>k\<close> and holds each week's videos at the week's position.
\<close>

theorem one_list_per_section:
  assumes "get_list_of_week_ids d c = Inr week_ids"
    and "get_lists_of_units d week_ids = Some (Inr units)"
    and "py_len week_ids = Inr k"
  shows "((\<forall>i<k. week_body d units (int i + 1) = Some (Inr (vs i)))
          \<longrightarrow> get_course_videos_urls_by_section c d None = Some (Inr (map vs [0..<k])))
    \<and> (get_course_videos_urls_by_section c d None = Some (Inr out)
          \<longrightarrow> length out = k
              \<and> (\<forall>i<k. week_body d units (int i + 1) = Some (Inr (out ! i))))"
  using resolver_all_weeks [OF assms, of vs] resolver_returns [OF assms, of out]
  by blast

theorem one_list_per_section_witness:
  "get_list_of_week_ids (course_server JNull) 5 = Inr (JList [JInt 10, JInt 20])
   \<and> get_lists_of_units (course_server JNull) (JList [JInt 10, JInt 20])
       = Some (Inr [JList [JInt 100], JList [JInt 200]])
   \<and> py_len (JList [JInt 10, JInt 20]) = Inr 2
   \<and> week_body (course_server JNull) [JList [JInt 100], JList [JInt 200]] 1
       = Some (Inr [\<lparr>available_qualities = sample_urls\<rparr>])
   \<and> week_body (course_server JNull) [JList [JInt 100], JList [JInt 200]] 2 = Some (Inr [])
   \<and> get_course_videos_urls_by_section 5 (course_server JNull) None
       = Some (Inr [[\<lparr>available_qualities = sample_urls\<rparr>], []])
   \<and> length [[\<lparr>available_qualities = sample_urls\<rparr>], []] = 2"
proof -
  let ?d = "course_server JNull" and ?units = "[JList [JInt 100], JList [JInt 200]]"
  let ?vs = "\<lambda>i::nat. if i = 0 then [\<lparr>available_qualities = sample_urls\<rparr>] else []"
  have 1: "get_list_of_week_ids ?d 5 = Inr (JList [JInt 10, JInt 20])" by code_simp
  have 2: "get_lists_of_units ?d (JList [JInt 10, JInt 20]) = Some (Inr ?units)" by code_simp
  have 3: "py_len (JList [JInt 10, JInt 20]) = Inr 2" by simp
  have w1: "week_body ?d ?units 1 = Some (Inr [\<lparr>available_qualities = sample_urls\<rparr>])"
    by code_simp
  have w2: "week_body ?d ?units 2 = Some (Inr [])" by code_simp
  have all: "\<forall>i<2. week_body ?d ?units (int i + 1) = Some (Inr (?vs i))"
    using w1 w2 by (auto simp: less_2_cases_iff)
  note t = one_list_per_section [OF 1 2 3, of ?vs "map ?vs [0..<2]"]
  from t all have r: "get_course_videos_urls_by_section 5 ?d None = Some (Inr (map ?vs [0..<2]))"
    by blast
  with t have "length (map ?vs [0..<2]) = 2" by blast
  moreover have "map ?vs [0..<2] = [[\<lparr>available_qualities = sample_urls\<rparr>], []]"
    by (simp add: upt_rec numeral_2_eq_2)
  ultimately show ?thesis using 1 2 3 w1 w2 r by simp
qed

text \<open>
  C10. With a week filter \<open>w\<close>, for a course of \<open>k\<close> sections: if \<open>1 \<le> w \<le> k\<close> the
  resolver runs the body of week \<open>w\<close> only and returns the one-element list of its videos,
  so that week \<open>w\<close> stands at the first position whatever \<open>w\<close> is; if \<open>w\<close> is outside
  \<open>1..k\<close> it returns the empty list. The weeks skipped leave no placeholder.
\<close>

theorem week_filter_keeps_one_week:
  assumes "get_list_of_week_ids d c = Inr week_ids"
    and "get_lists_of_units d week_ids = Some (Inr units)"
    and "py_len week_ids = Inr k"
  shows "(1 \<le> w \<and> w \<le> int k \<longrightarrow>
           get_course_videos_urls_by_section c d (Some w)
             = bindR (week_body d units w) (\<lambda>videos. Some (Inr [videos])))
    \<and> (1 \<le> w \<and> w \<le> int k \<and> week_body d units w = Some (Inr videos) \<longrightarrow>
           get_course_videos_urls_by_section c d (Some w) = Some (Inr [videos]))
    \<and> (\<not> (1 \<le> w \<and> w \<le> int k) \<longrightarrow>
           get_course_videos_urls_by_section c d (Some w) = Some (Inr []))"
  using resolver_one_week [OF assms, of w] by auto

theorem week_filter_keeps_one_week_witness:
  "get_course_videos_urls_by_section 5 (course_server JNull) (Some 1)
     = Some (Inr [[\<lparr>available_qualities = sample_urls\<rparr>]])
   \<and> get_course_videos_urls_by_section 5 (course_server JNull) (Some 2) = Some (Inr [[]])
   \<and> get_course_videos_urls_by_section 5 (course_server JNull) (Some 3) = Some (Inr [])
   \<and> get_course_videos_urls_by_section 5 (course_server JNull) (Some 0) = Some (Inr [])
   \<and> get_course_videos_urls_by_section 5 (course_server JNull) (Some 2)
       = bindR (week_body (course_server JNull) [JList [JInt 100], JList [JInt 200]] 2)
           (\<lambda>videos. Some (Inr [videos]))"
proof -
  let ?d = "course_server JNull" and ?units = "[JList [JInt 100], JList [JInt 200]]"
  have 1: "get_list_of_week_ids ?d 5 = Inr (JList [JInt 10, JInt 20])" by code_simp
  have 2: "get_lists_of_units ?d (JList [JInt 10, JInt 20]) = Some (Inr ?units)" by code_simp
  have 3: "py_len (JList [JInt 10, JInt 20]) = Inr 2" by simp
  have w1: "week_body ?d ?units 1 = Some (Inr [\<lparr>available_qualities = sample_urls\<rparr>])"
    by code_simp
  have w2: "week_body ?d ?units 2 = Some (Inr [])" by code_simp
  note t = week_filter_keeps_one_week [OF 1 2 3]
  from t [of 1 "[\<lparr>available_qualities = sample_urls\<rparr>]"] w1
  have a: "get_course_videos_urls_by_section 5 ?d (Some 1)
     = Some (Inr [[\<lparr>available_qualities = sample_urls\<rparr>]])" by simp
  from t [of 2 "[]"] w2
  have b: "get_course_videos_urls_by_section 5 ?d (Some 2) = Some (Inr [[]])" by simp
  from t [of 3] have c: "get_course_videos_urls_by_section 5 ?d (Some 3) = Some (Inr [])"
    by simp
  from t [of 0] have d: "get_course_videos_urls_by_section 5 ?d (Some 0) = Some (Inr [])"
    by simp
  from t [of 2] have e: "get_course_videos_urls_by_section 5 ?d (Some 2)
       = bindR (week_body ?d ?units 2) (\<lambda>videos. Some (Inr [videos]))" by simp
  from a b c d e show ?thesis by blast
qed

text \<open>
  C5. For a non-empty ordered list of (quality, URL) records and a requested quality: if
  a record has exactly that quality, the selector returns the URL of the first such
  record and no message; otherwise it returns the URL of the first record of the list
  and the message that the requested quality, which it names, is not available.
\<close>

theorem select_quality_exact_or_first:
  assumes "pairs \<noteq> []"
  shows "select_quality quality \<lparr>available_qualities = quality_records pairs\<rparr> =
    Inr (case map_of pairs quality of
           Some u \<Rightarrow> \<lparr>url = JStr u, msg = None\<rparr>
         | None \<Rightarrow>
             \<lparr>url = JStr (snd (hd pairs)),
              msg = Some (''The requested quality = '' @ quality @ '' is not available!'')\<rparr>)"
proof -
  let ?links = "map (\<lambda>(q, u). JObj [(''quality'', JStr q), (''url'', JStr u)]) pairs"
  let ?video = "\<lparr>available_qualities = quality_records pairs\<rparr>"
  obtain q u rest where pairs: "pairs = (q, u) # rest"
    using assms by (cases pairs) auto
  have links: "py_iter (available_qualities ?video) = Inr ?links"
    by (simp add: quality_records_def)
  have fallback: "first_available quality ?video =
      Inr \<lparr>url = JStr (snd (hd pairs)),
           msg = Some (''The requested quality = '' @ quality @ '' is not available!'')\<rparr>"
    by (simp add: first_available_def quality_records_def list_index_def pairs)
  have "select_quality quality ?video =
      (case find_link quality ?links of
         None \<Rightarrow> first_available quality ?video
       | Some video_link \<Rightarrow>
           if video_link = JNull then first_available quality ?video
           else Inr \<lparr>url = video_link, msg = None\<rparr>)"
    unfolding select_quality_def links by simp
  then show ?thesis
    unfolding find_link_records fallback
    by (cases "map_of pairs quality") simp_all
qed

theorem select_quality_exact_or_first_witness:
  "[(''360'', ''A''), (''720'', ''B'')] \<noteq> []
   \<and> select_quality ''1080''
        \<lparr>available_qualities = quality_records [(''360'', ''A''), (''720'', ''B'')]\<rparr>
       = Inr \<lparr>url = JStr ''A'', msg = Some ''The requested quality = 1080 is not available!''\<rparr>
   \<and> select_quality ''720''
        \<lparr>available_qualities = quality_records [(''360'', ''A''), (''720'', ''B'')]\<rparr>
       = Inr \<lparr>url = JStr ''B'', msg = None\<rparr>"
proof -
  have ne: "[(''360'', ''A''), (''720'', ''B'')] \<noteq> []" by simp
  from select_quality_exact_or_first [OF ne, of "''1080''"]
    select_quality_exact_or_first [OF ne, of "''720''"] ne
  show ?thesis by simp
qed

text \<open>
  C6, as stated, fails: on a video whose quality list is empty the selector raises
  \<open>IndexError\<close>, the out-of-bounds read of element 0, and the same exception ends the
  construction of the URL list of the whole week, although the next video has URLs.
\<close>

theorem empty_quality_list_index_error:
  "select_quality ''720'' \<lparr>available_qualities = JList []\<rparr> = Inl IndexError
   \<and> select_quality ''720'' \<lparr>available_qualities = sample_urls\<rparr>
       = Inr \<lparr>url = JStr ''B'', msg = None\<rparr>
   \<and> url_list_with_q ''720''
        [\<lparr>available_qualities = JList []\<rparr>, \<lparr>available_qualities = sample_urls\<rparr>]
       = Inl IndexError"
  by code_simp

text \<open>
  C6, amended. On a video whose quality list is empty the selector fails with
  \<open>IndexError\<close> (the program has no other error for this case), and the failure is not
  confined to that video: once the videos before it are selected, the construction of
  the week's URL list fails with \<open>IndexError\<close> too, whatever videos follow.
\<close>

theorem empty_quality_list_fails:
  "select_quality quality \<lparr>available_qualities = JList []\<rparr> = Inl IndexError
   \<and> (url_list_with_q quality before = Inr chosen \<longrightarrow>
        url_list_with_q quality (before @ \<lparr>available_qualities = JList []\<rparr> # after)
          = Inl IndexError)"
proof -
  have e: "select_quality quality \<lparr>available_qualities = JList []\<rparr> = Inl IndexError"
    by (simp add: select_quality_def first_available_def list_index_def)
  then show ?thesis
    using mapE_stops [of "select_quality quality" before chosen
        "\<lparr>available_qualities = JList []\<rparr>" IndexError after]
    by (simp add: url_list_with_q_def)
qed

theorem empty_quality_list_fails_witness:
  "url_list_with_q ''720'' [\<lparr>available_qualities = sample_urls\<rparr>]
     = Inr [\<lparr>url = JStr ''B'', msg = None\<rparr>]
   \<and> url_list_with_q ''720''
        ([\<lparr>available_qualities = sample_urls\<rparr>] @ \<lparr>available_qualities = JList []\<rparr>
           # [\<lparr>available_qualities = sample_urls\<rparr>])
       = Inl IndexError"
proof -
  have "url_list_with_q ''720'' [\<lparr>available_qualities = sample_urls\<rparr>]
     = Inr [\<lparr>url = JStr ''B'', msg = None\<rparr>]"
    by code_simp
  with empty_quality_list_fails [of "''720''" "[\<lparr>available_qualities = sample_urls\<rparr>]"
      "[\<lparr>url = JStr ''B'', msg = None\<rparr>]" "[\<lparr>available_qualities = sample_urls\<rparr>]"]
  show ?thesis by simp
qed

text \<open>
  C9, as stated, fails: a step whose block has no \<open>video\<close> key is not skipped, the read
  of the key raises \<open>KeyError\<close> and the week has no output.
\<close>

theorem absent_video_key_raises:
  "step_has_video bare_step = Inl KeyError
   \<and> week_videos (JList [video_step, bare_step]) = Inl KeyError"
  by code_simp

text \<open>
  C9, amended. For fetched steps whose block carries the \<open>video\<close> key: a step whose
  video is falsy is left out of the week's output without an exception, and the
  \<open>urls\<close> list of every remaining step's video is extracted, in step order.
\<close>

theorem falsy_video_steps_are_filtered:
  assumes "\<forall>s\<in>set steps. step_has_video s = Inr (vid s)"
    and "\<forall>s\<in>set steps. truthy (vid s) \<longrightarrow> getitem_str (vid s) ''urls'' = Inr (urls s)"
  shows "week_videos (JList steps)
    = Inr (map (\<lambda>s. \<lparr>available_qualities = urls s\<rparr>) (filter (\<lambda>s. truthy (vid s)) steps))"
  using assms by (rule week_videos_filter)

theorem falsy_video_steps_are_filtered_witness:
  "step_has_video text_step = Inr JNull
   \<and> step_has_video video_step = Inr (JObj [(''urls'', sample_urls)])
   \<and> week_videos (JList [text_step, video_step, text_step, video_step])
       = Inr [\<lparr>available_qualities = sample_urls\<rparr>, \<lparr>available_qualities = sample_urls\<rparr>]"
proof -
  let ?vid = "\<lambda>s. case step_has_video s of Inr v \<Rightarrow> v | Inl e \<Rightarrow> JNull"
  have t: "step_has_video text_step = Inr JNull" by code_simp
  have v: "step_has_video video_step = Inr (JObj [(''urls'', sample_urls)])" by code_simp
  have 1: "\<forall>s\<in>set [text_step, video_step, text_step, video_step].
      step_has_video s = Inr (?vid s)"
    using t v by simp
  have 2: "\<forall>s\<in>set [text_step, video_step, text_step, video_step].
      truthy (?vid s) \<longrightarrow> getitem_str (?vid s) ''urls'' = Inr ((\<lambda>s. sample_urls) s)"
    using t v by simp
  from falsy_video_steps_are_filtered [OF 1 2] t v show ?thesis by simp
qed

end
